theory Spec2Isabelle
  imports Complex_Main
begin

section \<open>Data model of \<open>gridwxcomp/spatial.py\<close>\<close>

text \<open>
  Python floats are modelled as real numbers, and a missing value (NaN) of a ratio
  column as \<open>None\<close>. Paths, directories and console output are not modelled: a file
  is the value stored at its path, \<open>None\<close> when \<open>os.path.isfile\<close> is false.
\<close>

datatype error = FileNotFoundError | IndexError | ValueError | TypeError | ArithmeticError

definition CELL_SIZE :: real where
  "CELL_SIZE = 0.041666666666666664"

text \<open>
  One row of the summary CSV read by \<open>pd.read_csv(in_path)\<close>: the station's own
  coordinates, the centroid of its gridMET cell, and the entry of the column
  \<open>var_name\<close> that is being interpolated.
\<close>

record station =
  STATION_LON :: real
  STATION_LAT :: real
  LON :: real
  LAT :: real
  ratio :: "real option"

type_synonym bounds = "real \<times> real \<times> real \<times> real"

section \<open>Bounds Calculator: \<open>get_subgrid_bounds\<close>\<close>

text \<open>
  \<open>in_file\<close> is the table at \<open>in_path\<close>. \<open>sort_values('LON')['LON'].values\<close> is the
  sorted list of the column; \<open>lons[0]\<close> on an empty array raises IndexError.
\<close>

definition get_subgrid_bounds :: "station list option \<Rightarrow> int \<Rightarrow> error + bounds" where
  "get_subgrid_bounds in_file buffer =
     (case in_file of
        None \<Rightarrow> Inl FileNotFoundError
      | Some in_df \<Rightarrow>
          (let lons = sort (map LON in_df) in
           if lons = [] then Inl IndexError
           else
             let lon_min = hd lons - CELL_SIZE / 2;
                 lon_max = last lons + CELL_SIZE / 2;
                 lats = sort (map LAT in_df);
                 lat_min = hd lats - CELL_SIZE / 2;
                 lat_max = last lats + CELL_SIZE / 2;
                 lon_min = lon_min - CELL_SIZE * of_int buffer;
                 lat_min = lat_min - CELL_SIZE * of_int buffer;
                 lon_max = lon_max + CELL_SIZE * of_int buffer;
                 lat_max = lat_max + CELL_SIZE * of_int buffer
             in Inr (lon_min, lon_max, lat_min, lat_max)))"

section \<open>Grid Builder: \<open>make_grid\<close>, \<open>get_cell_ID\<close>, \<open>_update_subgrid\<close>\<close>

type_synonym ring = "(real \<times> real) list"

text \<open>
  A feature of a polygon layer: the exterior ring of its geometry and the property
  GRIDMET_ID, absent (\<open>None\<close>) in the fishnet that \<open>make_grid\<close> writes first.
\<close>

record feature =
  geometry :: ring
  GRIDMET_ID :: "int option"

record layer =
  crs :: "nat option"
  features :: "feature list"

text \<open>A row of the catalog \<open>gridmet_cell_data.csv\<close>.\<close>

record gridmet_cell =
  cell_GRIDMET_ID :: int
  cell_LON :: real
  cell_LAT :: real

text \<open>
  \<open>np.isclose(a, b)\<close> with numpy's defaults \<open>rtol = 1e-05\<close>, \<open>atol = 1e-08\<close>:
  \<open>absolute(a - b) <= atol + rtol * absolute(b)\<close>.
\<close>

definition isclose :: "real \<Rightarrow> real \<Rightarrow> bool" where
  "isclose a b = (\<bar>a - b\<bar> \<le> 0.00000001 + 0.00001 * \<bar>b\<bar>)"

text \<open>
  \<open>Polygon(coords).bounds\<close> is (minx, miny, maxx, maxy). shapely refuses a ring of
  one or two coordinates with ValueError; the empty ring, whose bounds depend on the
  shapely version, is put with them.
\<close>

definition poly_bounds :: "ring \<Rightarrow> error + bounds" where
  "poly_bounds coords =
     (if length coords < 3 then Inl ValueError
      else Inr (Min (set (map fst coords)), Min (set (map snd coords)),
                Max (set (map fst coords)), Max (set (map snd coords))))"

definition get_cell_ID :: "ring \<Rightarrow> gridmet_cell list \<Rightarrow> error + int" where
  "get_cell_ID coords cell_data =
     (case poly_bounds coords of
        Inl e \<Rightarrow> Inl e
      | Inr (minx, miny, maxx, maxy) \<Rightarrow>
          (let lon_c = minx + CELL_SIZE / 2;
               lat_c = miny + CELL_SIZE / 2;
               row = filter (\<lambda>r. isclose (cell_LON r) lon_c \<and> isclose (cell_LAT r) lat_c)
                       cell_data
           in if length row = 1 then Inr (cell_GRIDMET_ID (hd row)) else Inr (- 999)))"

text \<open>
  The two nested \<open>while\<close> loops of \<open>make_grid\<close>: the inner one walks a column of
  cells southward, the outer one moves the column eastward. The first argument is the
  number of iterations left (\<open>rows - countrows\<close>, \<open>cols - countcols\<close>).
\<close>

fun column_cells :: "nat \<Rightarrow> real \<Rightarrow> real \<Rightarrow> real \<Rightarrow> real \<Rightarrow> feature list" where
  "column_cells 0 ringXleftOrigin ringXrightOrigin ringYtop ringYbottom = []"
| "column_cells (Suc n) ringXleftOrigin ringXrightOrigin ringYtop ringYbottom =
     \<lparr>geometry = [(ringXleftOrigin, ringYtop), (ringXrightOrigin, ringYtop),
                  (ringXrightOrigin, ringYbottom), (ringXleftOrigin, ringYbottom),
                  (ringXleftOrigin, ringYtop)],
      GRIDMET_ID = None\<rparr>
     # column_cells n ringXleftOrigin ringXrightOrigin
         (ringYtop - CELL_SIZE) (ringYbottom - CELL_SIZE)"

fun grid_cells :: "nat \<Rightarrow> nat \<Rightarrow> real \<Rightarrow> real \<Rightarrow> real \<Rightarrow> real \<Rightarrow> feature list" where
  "grid_cells 0 rows ringXleftOrigin ringXrightOrigin ringYtopOrigin ringYbottomOrigin = []"
| "grid_cells (Suc n) rows ringXleftOrigin ringXrightOrigin ringYtopOrigin ringYbottomOrigin =
     column_cells rows ringXleftOrigin ringXrightOrigin ringYtopOrigin ringYbottomOrigin
     @ grid_cells n rows (ringXleftOrigin + CELL_SIZE) (ringXrightOrigin + CELL_SIZE)
         ringYtopOrigin ringYbottomOrigin"

definition fishnet :: "bounds \<Rightarrow> feature list" where
  "fishnet b =
     (case b of (xmin, xmax, ymin, ymax) \<Rightarrow>
        let rows = \<lceil>(ymax - ymin) / CELL_SIZE\<rceil>;
            cols = \<lceil>(xmax - xmin) / CELL_SIZE\<rceil>
        in grid_cells (nat cols) (nat rows) xmin (xmin + CELL_SIZE) ymax (ymax - CELL_SIZE))"

section \<open>Zonal summary tables\<close>

text \<open>
  A summary table: its header (the key column GRIDMET_ID first) and its rows, each the
  key and the entries of the other columns (\<open>None\<close> an empty entry).
\<close>

record table =
  columns :: "string list"
  rows :: "(int \<times> real option list) list"

section \<open>The files the module reads and writes\<close>

text \<open>
  \<open>summary_csv\<close> is the file at \<open>in_path\<close>, \<open>gridmet_meta\<close> the catalog at the
  resolved \<open>gridmet_meta_path\<close>, \<open>grid_shp\<close> and \<open>grid_tmp_shp\<close> the files
  \<open>spatial/grid.shp\<close> and \<open>spatial/grid_tmp.shp\<close>, and \<open>zonal_csv\<close> the summary
  tables beside \<open>in_path\<close>, by file name.
\<close>

record fs =
  summary_csv :: "station list option"
  gridmet_meta :: "gridmet_cell list option"
  grid_shp :: "layer option"
  grid_tmp_shp :: "layer option"
  zonal_csv :: "string \<Rightarrow> table option"

text \<open>
  The loop \<open>for feature in source\<close> of \<open>_update_subgrid\<close>: the features written to
  the sink so far, and the error that stopped it, if any.
\<close>

fun write_sink :: "gridmet_cell list \<Rightarrow> feature list \<Rightarrow> feature list \<times> error option" where
  "write_sink gridmet_meta_df [] = ([], None)"
| "write_sink gridmet_meta_df (f # fs) =
     (case get_cell_ID (geometry f) gridmet_meta_df of
        Inl e \<Rightarrow> ([], Some e)
      | Inr gridmet_id \<Rightarrow>
          (case write_sink gridmet_meta_df fs of
             (written, err) \<Rightarrow> (f\<lparr>GRIDMET_ID := Some gridmet_id\<rparr> # written, err)))"

text \<open>
  \<open>_update_subgrid\<close> and \<open>make_grid\<close> return the states of the files after each of
  their effects, in order, and the error raised, if any. The layer under construction
  is recorded when its data source is closed.
\<close>

definition update_subgrid :: "fs \<Rightarrow> fs list \<times> error option" where
  "update_subgrid s =
     (case grid_shp s of
        None \<Rightarrow> ([], Some FileNotFoundError)
      | Some source \<Rightarrow>
          (case gridmet_meta s of
             None \<Rightarrow> ([], Some FileNotFoundError)
           | Some gridmet_meta_df \<Rightarrow>
               (case write_sink gridmet_meta_df (features source) of
                  (written, Some e) \<Rightarrow>
                    ([s\<lparr>grid_tmp_shp := Some \<lparr>crs = Some 4326, features = written\<rparr>\<rparr>], Some e)
                | (written, None) \<Rightarrow>
                    (let s1 = s\<lparr>grid_tmp_shp := Some \<lparr>crs = Some 4326, features = written\<rparr>\<rparr>;
                         s2 = s1\<lparr>grid_shp := grid_tmp_shp s1, grid_tmp_shp := None\<rparr>
                     in ([s1, s2], None)))))"

definition make_grid :: "bounds option \<Rightarrow> int \<Rightarrow> bool \<Rightarrow> fs \<Rightarrow> fs list \<times> error option" where
  "make_grid bounds buffer overwrite s =
     (if summary_csv s = None then ([], Some FileNotFoundError)
      else if grid_shp s \<noteq> None \<and> \<not> overwrite then ([], None)
      else
        (case (case bounds of None \<Rightarrow> get_subgrid_bounds (summary_csv s) buffer
                            | Some b \<Rightarrow> Inr b) of
           Inl e \<Rightarrow> ([], Some e)
         | Inr b \<Rightarrow>
             (let s1 = s\<lparr>grid_shp := None\<rparr>;
                  s2 = s1\<lparr>grid_shp := Some \<lparr>crs = None, features = fishnet b\<rparr>\<rparr>
              in case update_subgrid s2 of
                   (states, err) \<Rightarrow> (s1 # s2 # states, err))))"

section \<open>Surface Interpolator: \<open>_pointValue\<close> and \<open>interpolate\<close>\<close>



text \<open>\<open>np.round\<close> rounds a half to the even neighbour.\<close>

definition np_round :: "real \<Rightarrow> int" where
  "np_round x =
     (let f = \<lfloor>x\<rfloor>; d = x - of_int f
      in if d < 1 / 2 then f
         else if 1 / 2 < d then f + 1
         else if even f then f else f + 1)"

text \<open>
  The mask of \<open>interpolate\<close>: \<open>None\<close> is the early \<open>return\<close> (the logged skip),
  otherwise the station coordinates and values that go on to the interpolation.
\<close>

definition mask_missing ::
  "real list \<Rightarrow> real list \<Rightarrow> real option list \<Rightarrow> (real list \<times> real list \<times> real list) option"
  where
  "mask_missing lon_pts lat_pts values =
     (if None \<in> set values then
        let mask = map (\<lambda>v. v \<noteq> None) values;
            n_missing = length (filter Not mask)
        in if length mask = n_missing \<or> length mask = 1 then None
           else Some (map snd (filter fst (zip mask lon_pts)),
                      map snd (filter fst (zip mask lat_pts)),
                      List.map_filter (\<lambda>v. v) values)
      else Some (lon_pts, lat_pts, List.map_filter (\<lambda>v. v) values))"

text \<open>
  The lattice of \<open>interpolate\<close>: the cell counts and maximal coordinates after the
  extension to a square (\<open>nx_cells\<close>, \<open>ny_cells\<close>, and \<open>lon_max\<close>, \<open>lat_max\<close> as
  \<open>lon_max_ext\<close>, \<open>lat_max_ext\<close>), and the copies taken before it.
\<close>

record lattice =
  nx_cells :: int
  ny_cells :: int
  lon_max_ext :: real
  lat_max_ext :: real
  nx_cells_out :: int
  ny_cells_out :: int
  lon_max_out :: real
  lat_max_out :: real

definition lattice_dims :: "bounds \<Rightarrow> lattice" where
  "lattice_dims b =
     (case b of (lon_min, lon_max, lat_min, lat_max) \<Rightarrow>
        let nx = np_round \<bar>(lon_min - lon_max) / CELL_SIZE\<bar>;
            ny = np_round \<bar>(lat_min - lat_max) / CELL_SIZE\<bar>;
            l = \<lparr>nx_cells = nx, ny_cells = ny, lon_max_ext = lon_max, lat_max_ext = lat_max,
                 nx_cells_out = nx, ny_cells_out = ny,
                 lon_max_out = lon_max, lat_max_out = lat_max\<rparr>
        in if nx \<noteq> ny then
             let diff = \<bar>nx - ny\<bar>
             in if nx > ny
                then l\<lparr>lat_max_ext := lat_max + of_int diff * CELL_SIZE, ny_cells := ny + diff\<rparr>
                else l\<lparr>lon_max_ext := lon_max + of_int diff * CELL_SIZE, nx_cells := nx + diff\<rparr>
           else l)"

text \<open>
  The estimator and its tuning parameters after the defaults: \<open>if not smooth\<close> and
  \<open>if not power\<close> hold for \<open>None\<close> and for zero.
\<close>

datatype surface =
  InverseDist real real
  | RadialBasis string real

definition or_default :: "real option \<Rightarrow> real \<Rightarrow> real" where
  "or_default arg dflt = (case arg of None \<Rightarrow> dflt | Some v \<Rightarrow> if v = 0 then dflt else v)"

definition estimator :: "string \<Rightarrow> real option \<Rightarrow> real option \<Rightarrow> surface" where
  "estimator func smooth power_exp =
     (if func = ''inverse_dist''
      then InverseDist (or_default smooth 10) (or_default power_exp 3)
      else RadialBasis func (or_default smooth (- 0.001)))"

text \<open>
  What \<open>interpolate\<close> writes: the raster's size and geotransform, the estimator and
  the points it is given, the size of the lattice it is evaluated on
  (\<open>len(lons)\<close>, \<open>len(lats)\<close> for the radial-basis solver, whose result is clipped to
  \<open>[0:len(lats_out), 0:len(lons_out)]\<close>), and the clipping window. The pixel values
  themselves come from \<open>_invDist\<close> or from scipy's solver and are not part of the
  record.
\<close>

record raster =
  x_size :: int
  y_size :: int
  gt :: "real list"
  surface_method :: surface
  points :: "real list \<times> real list \<times> real list"
  solved_cols :: int
  solved_rows :: int
  clip_rows :: int
  clip_cols :: int

datatype outcome = Skipped | Wrote raster

text \<open>
  \<open>interpolate\<close>, up to the raster it writes. \<open>meta_exists\<close> says whether the
  catalog path resolves to a file. A zero scale factor stops at the division
  (ZeroDivisionError or OverflowError, both ArithmeticError), and \<open>np.linspace\<close>
  refuses a negative number of samples with ValueError.
\<close>

definition interpolate ::
  "station list option \<Rightarrow> bool \<Rightarrow> real \<Rightarrow> string \<Rightarrow> real option \<Rightarrow> real option \<Rightarrow>
   bounds option \<Rightarrow> int \<Rightarrow> error + outcome" where
  "interpolate in_file meta_exists scale_factor func smooth power_exp bounds buffer =
     (case in_file of
        None \<Rightarrow> Inl FileNotFoundError
      | Some in_df \<Rightarrow>
          if \<not> meta_exists then Inl FileNotFoundError
          else
            (case mask_missing (map STATION_LON in_df) (map STATION_LAT in_df)
                    (map ratio in_df) of
               None \<Rightarrow> Inr Skipped
             | Some pts \<Rightarrow>
                 (case (case bounds of None \<Rightarrow> get_subgrid_bounds in_file buffer
                                     | Some b \<Rightarrow> Inr b) of
                    Inl e \<Rightarrow> Inl e
                  | Inr (lon_min, lon_max, lat_min, lat_max) \<Rightarrow>
                      (let l = lattice_dims (lon_min, lon_max, lat_min, lat_max)
                       in if scale_factor = 0 then Inl ArithmeticError
                          else
                            let n_lons = np_round (of_int (nx_cells l) / scale_factor) + 1;
                                n_lats = np_round (of_int (ny_cells l) / scale_factor) + 1;
                                n_lons_out =
                                  np_round (of_int (nx_cells_out l) / scale_factor) + 1;
                                n_lats_out =
                                  np_round (of_int (ny_cells_out l) / scale_factor) + 1;
                                pixel_size = CELL_SIZE * scale_factor
                            in if n_lons < 0 \<or> n_lats < 0 \<or> n_lons_out < 0 \<or> n_lats_out < 0
                               then Inl ValueError
                               else Inr (Wrote
                                 \<lparr>x_size = n_lons_out, y_size = n_lats_out,
                                  gt = [lon_min, pixel_size, 0, lat_max_out l, 0, - pixel_size],
                                  surface_method = estimator func smooth power_exp,
                                  points = pts,
                                  solved_cols =
                                    (if func = ''inverse_dist'' then n_lons_out else n_lons),
                                  solved_rows =
                                    (if func = ''inverse_dist'' then n_lats_out else n_lats),
                                  clip_rows = n_lats_out, clip_cols = n_lons_out\<rparr>)))))"

section \<open>Zonal Aggregator: \<open>gridmet_zonal_stats\<close>\<close>

text \<open>
  The raster argument: the interpolation method, the resolution and the variable name
  that the regular expression reads from its path, and the mean of its pixels inside a
  polygon, as \<open>rasterstats.zonal_stats\<close> computes it (\<open>None\<close> when the polygon holds
  no pixel). The variable is a ratio column, not the key column GRIDMET_ID.
\<close>

record raster_file =
  interp_function :: string
  res :: string
  var_name :: string
  zonal_mean :: "ring \<Rightarrow> real option"

text \<open>\<open>existing_df.merge(out_df, on='GRIDMET_ID')\<close>: an inner join on the key.\<close>

definition merge_rows ::
  "(int \<times> real option list) list \<Rightarrow> (int \<times> real option) list \<Rightarrow> (int \<times> real option list) list"
  where
  "merge_rows existing out_rows =
     concat (map (\<lambda>(i, vs). map (\<lambda>(j, m). (i, vs @ [m])) (filter (\<lambda>(j, m). j = i) out_rows))
               existing)"

text \<open>
  \<open>grid_var\<close> is the prefix of the input file's name before \<open>_summ\<close>, and
  \<open>out_file\<close> the name of the summary table built from it. The result is
  the error raised or the files afterwards. \<open>astype(int)\<close> fails on a feature without
  GRIDMET_ID (TypeError or ValueError, by the column's inferred type; TypeError here).
\<close>

definition out_file :: "string \<Rightarrow> raster_file \<Rightarrow> string" where
  "out_file grid_var raster =
     grid_var @ ''_gridmet_summary'' @ ''_'' @ interp_function raster
       @ ''_'' @ res raster @ ''m.csv''"

definition gridmet_zonal_stats :: "string \<Rightarrow> raster_file \<Rightarrow> fs \<Rightarrow> error + fs" where
  "gridmet_zonal_stats grid_var raster s =
     (if summary_csv s = None then Inl FileNotFoundError
      else
        let out_file = out_file grid_var raster
        in case grid_shp s of
             None \<Rightarrow> Inl FileNotFoundError
           | Some source \<Rightarrow>
               (let means = map (\<lambda>f. zonal_mean raster (geometry f)) (features source);
                    gridmet_ids = map GRIDMET_ID (features source)
                in if None \<in> set gridmet_ids then Inl TypeError
                   else
                     let out_df = zip (List.map_filter (\<lambda>g. g) gridmet_ids) means;
                         out_df = filter (\<lambda>(g, m). g \<noteq> - 999) out_df
                     in case zonal_csv s out_file of
                          None \<Rightarrow>
                            Inr (s\<lparr>zonal_csv := (zonal_csv s)(out_file \<mapsto>
                                   \<lparr>columns = [''GRIDMET_ID'', var_name raster],
                                    rows = map (\<lambda>(g, m). (g, [m])) out_df\<rparr>)\<rparr>)
                        | Some existing_df \<Rightarrow>
                            if var_name raster \<in> set (columns existing_df) then Inr s
                            else
                              Inr (s\<lparr>zonal_csv := (zonal_csv s)(out_file \<mapsto>
                                     \<lparr>columns = columns existing_df @ [var_name raster],
                                      rows = merge_rows (rows existing_df) out_df\<rparr>)\<rparr>)))"

section \<open>Properties of the Bounds Calculator\<close>

lemma CELL_SIZE_pos: "0 < CELL_SIZE"
  by (simp add: CELL_SIZE_def)

lemma hd_sort_Min:
  fixes xs :: "real list"
  assumes "xs \<noteq> []"
  shows "hd (sort xs) = Min (set xs)"
proof -
  have ne: "sort xs \<noteq> []" using assms by (metis length_0_conv length_sort)
  then obtain y ys where s: "sort xs = y # ys" by (cases "sort xs") auto
  have "sorted (y # ys)" using sorted_sort_key [of "\<lambda>x. x" xs] s by simp
  then have "\<forall>z\<in>set (y # ys). y \<le> z" by auto
  moreover have "set (y # ys) = set xs" using s set_sort [of "\<lambda>x. x" xs] by simp
  ultimately have "Min (set xs) = y"
    by (intro Min_eqI) auto
  then show ?thesis using s by simp
qed

lemma last_sort_Max:
  fixes xs :: "real list"
  assumes "xs \<noteq> []"
  shows "last (sort xs) = Max (set xs)"
proof -
  have ne: "sort xs \<noteq> []" using assms by (metis length_0_conv length_sort)
  have srt: "sorted (sort xs)" by simp
  have "\<forall>z\<in>set (sort xs). z \<le> last (sort xs)"
  proof
    fix z assume "z \<in> set (sort xs)"
    then obtain i where i: "i < length (sort xs)" "sort xs ! i = z"
      unfolding in_set_conv_nth by blast
    have "sort xs ! i \<le> sort xs ! (length (sort xs) - 1)"
      using srt i ne by (intro sorted_nth_mono) auto
    then show "z \<le> last (sort xs)" using i ne by (simp add: last_conv_nth)
  qed
  moreover have "last (sort xs) \<in> set xs" using ne last_in_set [of "sort xs"] by simp
  ultimately show ?thesis
    by (intro Max_eqI [symmetric]) auto
qed

text \<open>
  C4: for a located table with at least one point and an integer buffer \<open>\<ge> 0\<close>, the
  returned tuple (lon_min, lon_max, lat_min, lat_max) is the minimal bounding rectangle
  of the LON/LAT points, moved outward by CELL_SIZE / 2 and then by buffer * CELL_SIZE
  on every edge; every point lies strictly inside, and with buffer 0 every edge is
  exactly CELL_SIZE / 2 beyond the extreme coordinate.
\<close>

theorem get_subgrid_bounds_rectangle:
  assumes "in_df \<noteq> []" and "0 \<le> buffer"
  shows "\<exists>lon_min lon_max lat_min lat_max.
           get_subgrid_bounds (Some in_df) buffer = Inr (lon_min, lon_max, lat_min, lat_max) \<and>
           lon_min = Min (LON ` set in_df) - CELL_SIZE / 2 - of_int buffer * CELL_SIZE \<and>
           lon_max = Max (LON ` set in_df) + CELL_SIZE / 2 + of_int buffer * CELL_SIZE \<and>
           lat_min = Min (LAT ` set in_df) - CELL_SIZE / 2 - of_int buffer * CELL_SIZE \<and>
           lat_max = Max (LAT ` set in_df) + CELL_SIZE / 2 + of_int buffer * CELL_SIZE \<and>
           (\<forall>p \<in> set in_df. lon_min < LON p \<and> LON p < lon_max \<and>
                              lat_min < LAT p \<and> LAT p < lat_max) \<and>
           (buffer = 0 \<longrightarrow>
              lon_min = Min (LON ` set in_df) - CELL_SIZE / 2 \<and>
              lon_max = Max (LON ` set in_df) + CELL_SIZE / 2 \<and>
              lat_min = Min (LAT ` set in_df) - CELL_SIZE / 2 \<and>
              lat_max = Max (LAT ` set in_df) + CELL_SIZE / 2)"
proof -
  have lo: "map LON in_df \<noteq> []" and la: "map LAT in_df \<noteq> []" using assms by auto
  have hlo: "hd (sort (map LON in_df)) = Min (LON ` set in_df)"
    using hd_sort_Min [OF lo] by simp
  have llo: "last (sort (map LON in_df)) = Max (LON ` set in_df)"
    using last_sort_Max [OF lo] by simp
  have hla: "hd (sort (map LAT in_df)) = Min (LAT ` set in_df)"
    using hd_sort_Min [OF la] by simp
  have lla: "last (sort (map LAT in_df)) = Max (LAT ` set in_df)"
    using last_sort_Max [OF la] by simp
  have ne: "sort (map LON in_df) \<noteq> []" using lo by (metis length_0_conv length_sort)
  have b: "0 \<le> of_int buffer * CELL_SIZE"
    using assms(2) CELL_SIZE_pos by simp
  have h: "0 < CELL_SIZE / 2" using CELL_SIZE_pos by simp
  have inside: "\<forall>p \<in> set in_df.
      Min (LON ` set in_df) - CELL_SIZE / 2 - of_int buffer * CELL_SIZE < LON p \<and>
      LON p < Max (LON ` set in_df) + CELL_SIZE / 2 + of_int buffer * CELL_SIZE \<and>
      Min (LAT ` set in_df) - CELL_SIZE / 2 - of_int buffer * CELL_SIZE < LAT p \<and>
      LAT p < Max (LAT ` set in_df) + CELL_SIZE / 2 + of_int buffer * CELL_SIZE"
  proof
    fix p assume p: "p \<in> set in_df"
    have 1: "Min (LON ` set in_df) \<le> LON p" using p by (intro Min_le) auto
    have 2: "LON p \<le> Max (LON ` set in_df)" using p by (intro Max_ge) auto
    have 3: "Min (LAT ` set in_df) \<le> LAT p" using p by (intro Min_le) auto
    have 4: "LAT p \<le> Max (LAT ` set in_df)" using p by (intro Max_ge) auto
    show "Min (LON ` set in_df) - CELL_SIZE / 2 - of_int buffer * CELL_SIZE < LON p \<and>
      LON p < Max (LON ` set in_df) + CELL_SIZE / 2 + of_int buffer * CELL_SIZE \<and>
      Min (LAT ` set in_df) - CELL_SIZE / 2 - of_int buffer * CELL_SIZE < LAT p \<and>
      LAT p < Max (LAT ` set in_df) + CELL_SIZE / 2 + of_int buffer * CELL_SIZE"
      using 1 2 3 4 b h by linarith
  qed
  have eq: "get_subgrid_bounds (Some in_df) buffer =
      Inr (Min (LON ` set in_df) - CELL_SIZE / 2 - of_int buffer * CELL_SIZE,
           Max (LON ` set in_df) + CELL_SIZE / 2 + of_int buffer * CELL_SIZE,
           Min (LAT ` set in_df) - CELL_SIZE / 2 - of_int buffer * CELL_SIZE,
           Max (LAT ` set in_df) + CELL_SIZE / 2 + of_int buffer * CELL_SIZE)"
    using ne by (simp add: get_subgrid_bounds_def Let_def hlo llo hla lla mult.commute)
  show ?thesis using eq inside by simp
qed

theorem get_subgrid_bounds_rectangle_witness:
  "get_subgrid_bounds
     (Some [\<lparr>STATION_LON = 0, STATION_LAT = 0, LON = 1, LAT = 5, ratio = None\<rparr>,
            \<lparr>STATION_LON = 0, STATION_LAT = 0, LON = 3, LAT = 2, ratio = None\<rparr>]) 1 =
   Inr (1 - CELL_SIZE / 2 - CELL_SIZE, 3 + CELL_SIZE / 2 + CELL_SIZE,
        2 - CELL_SIZE / 2 - CELL_SIZE, 5 + CELL_SIZE / 2 + CELL_SIZE)"
  using get_subgrid_bounds_rectangle
    [of "[\<lparr>STATION_LON = 0, STATION_LAT = 0, LON = 1, LAT = 5, ratio = None\<rparr>,
          \<lparr>STATION_LON = 0, STATION_LAT = 0, LON = 3, LAT = 2, ratio = None\<rparr>]" 1]
  by auto

lemma sort_eq_Nil:
  fixes xs :: "real list"
  shows "(sort xs = []) = (xs = [])"
  by (metis length_0_conv length_sort)

text \<open>
  C5, as the code has it: the Bounds Calculator raises FileNotFoundError exactly when
  the source table is not found; on a located table without points it raises IndexError
  instead; and it returns bounds exactly when the table is located and has a point, so
  neither failure returns bounds.
\<close>

theorem get_subgrid_bounds_failures:
  "(get_subgrid_bounds in_file buffer = Inl FileNotFoundError) = (in_file = None) \<and>
   get_subgrid_bounds (Some []) buffer = Inl IndexError \<and>
   ((\<exists>b. get_subgrid_bounds in_file buffer = Inr b) =
    (\<exists>in_df. in_file = Some in_df \<and> in_df \<noteq> []))"
  by (auto simp: get_subgrid_bounds_def Let_def sort_eq_Nil split: option.splits)

text \<open>
  The empty point set does not give the missing-input error that C5 states.
\<close>

theorem get_subgrid_bounds_empty_counterexample:
  "get_subgrid_bounds (Some []) 0 \<noteq> Inl FileNotFoundError"
  by (simp add: get_subgrid_bounds_def)

section \<open>Properties of the Surface Interpolator\<close>

lemma np_round_of_int: "np_round (of_int n) = n"
  by (simp add: np_round_def Let_def)

lemma interpolate_method:
  "interpolate in_file meta_exists scale_factor func smooth power_exp bounds buffer = Inr (Wrote r)
   \<Longrightarrow> surface_method r = estimator func smooth power_exp"
  by (auto simp: interpolate_def Let_def split: option.splits sum.splits if_splits prod.splits)

text \<open>
  C10: a smoothing or power argument of exactly 0 is treated like an absent one. In
  every raster that \<open>interpolate\<close> writes with the distance-weighted method, the
  smoothing and power handed to the estimator are non-zero, and they are the defaults
  10 and 3 when the argument was 0 or absent; with a radial-basis method the smoothing is
  non-zero and is the default -0.001 when the argument was 0 or absent.
\<close>

theorem interpolate_zero_is_default:
  assumes "interpolate in_file meta_exists scale_factor func smooth power_exp bounds buffer
             = Inr (Wrote r)"
  shows "(func = ''inverse_dist'' \<longrightarrow>
            (\<exists>s p. surface_method r = InverseDist s p \<and> s \<noteq> 0 \<and> p \<noteq> 0 \<and>
                   (smooth = Some 0 \<or> smooth = None \<longrightarrow> s = 10) \<and>
                   (power_exp = Some 0 \<or> power_exp = None \<longrightarrow> p = 3))) \<and>
         (func \<noteq> ''inverse_dist'' \<longrightarrow>
            (\<exists>s. surface_method r = RadialBasis func s \<and> s \<noteq> 0 \<and>
                 (smooth = Some 0 \<or> smooth = None \<longrightarrow> s = - 0.001)))"
  using interpolate_method [OF assms]
  by (auto simp: estimator_def or_default_def split: option.splits)

lemma interpolate_two_stations:
  "interpolate
     (Some [\<lparr>STATION_LON = 0, STATION_LAT = 0, LON = 0, LAT = 0, ratio = Some 1\<rparr>,
            \<lparr>STATION_LON = 1, STATION_LAT = 1, LON = 1, LAT = 1, ratio = Some 2\<rparr>])
     True 1 ''inverse_dist'' (Some 0) (Some 0) (Some (0, 2 * CELL_SIZE, 0, CELL_SIZE)) 25
   = Inr (Wrote \<lparr>x_size = 3, y_size = 2, gt = [0, CELL_SIZE, 0, CELL_SIZE, 0, - CELL_SIZE],
                 surface_method = InverseDist 10 3, points = ([0, 1], [0, 1], [1, 2]),
                 solved_cols = 3, solved_rows = 2, clip_rows = 2, clip_cols = 3\<rparr>)"
  using CELL_SIZE_pos
  by (simp add: interpolate_def mask_missing_def lattice_dims_def Let_def estimator_def
      or_default_def List.map_filter_simps np_round_of_int [of 2, simplified] np_round_of_int [of 1, simplified])

theorem interpolate_zero_is_default_witness:
  "surface_method \<lparr>x_size = 3, y_size = 2, gt = [0, CELL_SIZE, 0, CELL_SIZE, 0, - CELL_SIZE],
                 surface_method = InverseDist 10 3, points = ([0, 1], [0, 1], [1, 2]),
                 solved_cols = 3, solved_rows = 2, clip_rows = 2, clip_cols = 3\<rparr> = InverseDist 10 3
   \<and> interpolate
     (Some [\<lparr>STATION_LON = 0, STATION_LAT = 0, LON = 0, LAT = 0, ratio = Some 1\<rparr>,
            \<lparr>STATION_LON = 1, STATION_LAT = 1, LON = 1, LAT = 1, ratio = Some 2\<rparr>])
     True 1 ''inverse_dist'' (Some 0) (Some 0) (Some (0, 2 * CELL_SIZE, 0, CELL_SIZE)) 25
   = Inr (Wrote \<lparr>x_size = 3, y_size = 2, gt = [0, CELL_SIZE, 0, CELL_SIZE, 0, - CELL_SIZE],
                 surface_method = InverseDist 10 3, points = ([0, 1], [0, 1], [1, 2]),
                 solved_cols = 3, solved_rows = 2, clip_rows = 2, clip_cols = 3\<rparr>)"
  using interpolate_zero_is_default [OF interpolate_two_stations] interpolate_two_stations
  by simp












text \<open>
  The skip of \<open>interpolate\<close> is taken exactly when some value is missing and either
  all of them are or the table has one row.
\<close>

lemma length_filter_all:
  "(length xs = length (filter P xs)) = (\<forall>x \<in> set xs. P x)"
proof (induction xs)
  case Nil
  then show ?case by simp
next
  case (Cons a xs)
  have le: "length (filter P xs) \<le> length xs" by (rule length_filter_le)
  show ?case
  proof (cases "P a")
    case True
    with Cons show ?thesis by simp
  next
    case False
    from le have "Suc (length xs) \<noteq> length (filter P xs)" by linarith
    with False show ?thesis by simp
  qed
qed

lemma filter_Not_mask:
  "length (filter Not (map (\<lambda>v. v \<noteq> None) vs)) = length (filter (\<lambda>v. v = None) vs)"
  by (induction vs) simp_all

lemma mask_missing_skips:
  "(mask_missing lon_pts lat_pts vs = None) =
   (None \<in> set vs \<and> ((\<forall>v \<in> set vs. v = None) \<or> length vs = 1))"
  unfolding mask_missing_def Let_def
  by (simp add: filter_Not_mask length_filter_all)

text \<open>
  C2: with three stations of which two have no value for the variable, one point with a
  defined value remains, and \<open>interpolate\<close> does not skip: the mask only stops when
  every value is missing or the table has a single row. It goes on to the
  distance-weighted estimator with that one point and writes a raster.
\<close>

theorem interpolate_one_valid_point_proceeds:
  "interpolate
     (Some [\<lparr>STATION_LON = 0, STATION_LAT = 0, LON = 0, LAT = 0, ratio = None\<rparr>,
            \<lparr>STATION_LON = 1, STATION_LAT = 1, LON = 0, LAT = 0, ratio = None\<rparr>,
            \<lparr>STATION_LON = 2, STATION_LAT = 2, LON = 0, LAT = 0, ratio = Some 1\<rparr>])
     True 1 ''inverse_dist'' None None None 1
   = Inr (Wrote \<lparr>x_size = 4, y_size = 4,
                 gt = [- (CELL_SIZE / 2) - CELL_SIZE, CELL_SIZE, 0,
                       CELL_SIZE / 2 + CELL_SIZE, 0, - CELL_SIZE],
                 surface_method = InverseDist 10 3, points = ([2], [2], [1]),
                 solved_cols = 4, solved_rows = 4, clip_rows = 4, clip_cols = 4\<rparr>)"
proof -
  have n3: "np_round (\<bar>3 * CELL_SIZE\<bar> / \<bar>CELL_SIZE\<bar>) = 3"
    using CELL_SIZE_pos np_round_of_int [of 3] by simp
  show ?thesis
    by (simp add: interpolate_def mask_missing_def get_subgrid_bounds_def lattice_dims_def
        Let_def estimator_def or_default_def List.map_filter_simps n3
        np_round_of_int)
qed

section \<open>Properties of \<open>_pointValue\<close>\<close>








section \<open>Properties of the cell-identity lookup\<close>






section \<open>Properties of the Zonal Aggregator\<close>

lemma merge_rows_keys:
  "fst ` set (merge_rows existing out_rows) \<subseteq> fst ` set out_rows"
  by (force simp: merge_rows_def)

lemma zonal_no_write:
  assumes "zonal_csv s (out_file grid_var raster) = Some t"
      and "var_name raster \<in> set (columns t)"
  shows "gridmet_zonal_stats grid_var raster s = Inr s \<or>
         (\<exists>e. gridmet_zonal_stats grid_var raster s = Inl e)"
  using assms
  by (simp add: gridmet_zonal_stats_def Let_def split: option.splits)

lemma zonal_after:
  assumes "gridmet_zonal_stats grid_var raster s = Inr s'"
  shows "summary_csv s' = summary_csv s \<and> grid_shp s' = grid_shp s \<and>
         (\<exists>t. zonal_csv s' (out_file grid_var raster) = Some t \<and>
              var_name raster \<in> set (columns t))"
proof (cases "grid_shp s")
  case None
  with assms show ?thesis
    by (simp add: gridmet_zonal_stats_def Let_def split: if_splits)
next
  case (Some source)
  show ?thesis
  proof (cases "zonal_csv s (out_file grid_var raster)")
    case None
    with assms Some show ?thesis
      by (auto simp add: gridmet_zonal_stats_def Let_def split: if_splits)
  next
    case (Some existing_df)
    with assms \<open>grid_shp s = Some source\<close> show ?thesis
      by (auto simp add: gridmet_zonal_stats_def Let_def split: if_splits)
  qed
qed

lemma zonal_repeat:
  assumes "gridmet_zonal_stats grid_var raster s = Inr s'"
      and "interp_function raster' = interp_function raster"
      and "res raster' = res raster"
      and "var_name raster' = var_name raster"
  shows "gridmet_zonal_stats grid_var raster' s' = Inr s'"
proof -
  have of_eq: "out_file grid_var raster' = out_file grid_var raster"
    using assms(2,3) by (simp add: out_file_def)
  from zonal_after [OF assms(1)] obtain t where
    a: "summary_csv s' = summary_csv s" "grid_shp s' = grid_shp s"
       "zonal_csv s' (out_file grid_var raster) = Some t" "var_name raster \<in> set (columns t)"
    by blast
  have b: "summary_csv s \<noteq> None" using assms(1)
    by (auto simp: gridmet_zonal_stats_def split: if_splits)
  obtain source where c: "grid_shp s = Some source" "None \<notin> set (map GRIDMET_ID (features source))"
    using assms(1) b
    by (auto simp: gridmet_zonal_stats_def Let_def split: if_splits option.splits)
  show ?thesis
    using a b c assms(4) of_eq
    by (simp add: gridmet_zonal_stats_def Let_def)
qed

lemma zonal_create:
  assumes "gridmet_zonal_stats grid_var raster s = Inr s'"
      and "zonal_csv s (out_file grid_var raster) = None"
  shows "\<exists>t. zonal_csv s' (out_file grid_var raster) = Some t \<and>
             columns t = [''GRIDMET_ID'', var_name raster] \<and>
             (\<forall>row \<in> set (rows t). fst row \<noteq> - 999)"
proof (cases "grid_shp s")
  case None
  with assms show ?thesis
    by (simp add: gridmet_zonal_stats_def Let_def split: if_splits)
next
  case (Some source)
  with assms show ?thesis
    by (auto simp add: gridmet_zonal_stats_def Let_def split: if_splits)
qed

lemma zonal_merge:
  assumes "gridmet_zonal_stats grid_var raster s = Inr s'"
      and "zonal_csv s (out_file grid_var raster) = Some existing_df"
      and "var_name raster \<notin> set (columns existing_df)"
  shows "\<exists>t. zonal_csv s' (out_file grid_var raster) = Some t \<and>
             columns t = columns existing_df @ [var_name raster] \<and>
             (\<forall>row \<in> set (rows t). fst row \<noteq> - 999)"
proof (cases "grid_shp s")
  case None
  with assms show ?thesis
    by (simp add: gridmet_zonal_stats_def Let_def split: if_splits)
next
  case (Some source)
  have keys: "fst row \<noteq> - 999"
    if "row \<in> set (merge_rows ex (filter (\<lambda>(g, m). g \<noteq> - 999) od))" for row ex od
    using that merge_rows_keys [of ex "filter (\<lambda>(g, m). g \<noteq> - 999) od"] by auto
  from assms Some show ?thesis
    by (auto simp add: gridmet_zonal_stats_def Let_def keys split: if_splits)
qed


text \<open>
  C8: whenever \<open>gridmet_zonal_stats\<close> writes the summary table, no row of the
  written table has the identifier -999, both when it creates the table (header
  GRIDMET_ID and the variable) and when it joins the new column onto an existing table
  that lacks it.
\<close>

theorem zonal_stats_drops_sentinel:
  assumes "gridmet_zonal_stats grid_var raster s = Inr s'"
  shows "(zonal_csv s (out_file grid_var raster) = None \<longrightarrow>
            (\<exists>t. zonal_csv s' (out_file grid_var raster) = Some t \<and>
                 columns t = [''GRIDMET_ID'', var_name raster] \<and>
                 (\<forall>row \<in> set (rows t). fst row \<noteq> - 999))) \<and>
         (\<forall>existing_df.
            zonal_csv s (out_file grid_var raster) = Some existing_df \<and>
            var_name raster \<notin> set (columns existing_df) \<longrightarrow>
            (\<exists>t. zonal_csv s' (out_file grid_var raster) = Some t \<and>
                 columns t = columns existing_df @ [var_name raster] \<and>
                 (\<forall>row \<in> set (rows t). fst row \<noteq> - 999)))"
  using zonal_create [OF assms] zonal_merge [OF assms] by blast

lemma zonal_example:
  "gridmet_zonal_stats ''etr_mm''
     \<lparr>interp_function = ''linear'', res = ''400'', var_name = ''Annual_mean'',
      zonal_mean = (\<lambda>ring. Some 1)\<rparr>
     \<lparr>summary_csv = Some [], gridmet_meta = None,
      grid_shp = Some \<lparr>crs = Some 4326,
                       features = [\<lparr>geometry = [], GRIDMET_ID = Some 5\<rparr>,
                                   \<lparr>geometry = [], GRIDMET_ID = Some (- 999)\<rparr>]\<rparr>,
      grid_tmp_shp = None,
      zonal_csv = (\<lambda>f. if f = ''etr_mm_gridmet_summary_linear_400m.csv''
                         then Some \<lparr>columns = [''GRIDMET_ID'', ''Jan_mean''],
                                    rows = [(5, [Some 2]), (- 999, [Some 3]), (6, [None])]\<rparr>
                         else None)\<rparr>
   = Inr \<lparr>summary_csv = Some [], gridmet_meta = None,
      grid_shp = Some \<lparr>crs = Some 4326,
                       features = [\<lparr>geometry = [], GRIDMET_ID = Some 5\<rparr>,
                                   \<lparr>geometry = [], GRIDMET_ID = Some (- 999)\<rparr>]\<rparr>,
      grid_tmp_shp = None,
      zonal_csv = (\<lambda>f. if f = ''etr_mm_gridmet_summary_linear_400m.csv''
                         then Some \<lparr>columns = [''GRIDMET_ID'', ''Jan_mean'', ''Annual_mean''],
                                    rows = [(5, [Some 2, Some 1])]\<rparr>
                         else None)\<rparr>"
  by (auto simp add: gridmet_zonal_stats_def out_file_def Let_def List.map_filter_simps
      merge_rows_def fun_eq_iff)


theorem zonal_stats_drops_sentinel_witness:
  "gridmet_zonal_stats ''etr_mm''
     \<lparr>interp_function = ''linear'', res = ''400'', var_name = ''Annual_mean'',
      zonal_mean = (\<lambda>ring. Some 1)\<rparr>
     \<lparr>summary_csv = Some [], gridmet_meta = None,
      grid_shp = Some \<lparr>crs = Some 4326,
                       features = [\<lparr>geometry = [], GRIDMET_ID = Some 5\<rparr>,
                                   \<lparr>geometry = [], GRIDMET_ID = Some (- 999)\<rparr>]\<rparr>,
      grid_tmp_shp = None,
      zonal_csv = (\<lambda>f. if f = ''etr_mm_gridmet_summary_linear_400m.csv''
                         then Some \<lparr>columns = [''GRIDMET_ID'', ''Jan_mean''],
                                    rows = [(5, [Some 2]), (- 999, [Some 3]), (6, [None])]\<rparr>
                         else None)\<rparr>
   = Inr \<lparr>summary_csv = Some [], gridmet_meta = None,
      grid_shp = Some \<lparr>crs = Some 4326,
                       features = [\<lparr>geometry = [], GRIDMET_ID = Some 5\<rparr>,
                                   \<lparr>geometry = [], GRIDMET_ID = Some (- 999)\<rparr>]\<rparr>,
      grid_tmp_shp = None,
      zonal_csv = (\<lambda>f. if f = ''etr_mm_gridmet_summary_linear_400m.csv''
                         then Some \<lparr>columns = [''GRIDMET_ID'', ''Jan_mean'', ''Annual_mean''],
                                    rows = [(5, [Some 2, Some 1])]\<rparr>
                         else None)\<rparr> \<and>
   map fst [(5, [Some 2, Some 1 :: real option])] = [5 :: int]"
  using zonal_stats_drops_sentinel [OF zonal_example] zonal_example
  by simp

text \<open>
  C9: on a summary table that has a column named like the variable, a call writes
  nothing: it returns the files as they are, or raises before any write. Hence after a
  call that returned, a second call for the same method, resolution and variable,
  whatever the second raster holds, leaves all files as the first call left them.
\<close>

theorem zonal_stats_idempotent:
  assumes "gridmet_zonal_stats grid_var raster s = Inr s'"
      and "interp_function raster' = interp_function raster"
      and "res raster' = res raster"
      and "var_name raster' = var_name raster"
  shows "gridmet_zonal_stats grid_var raster' s' = Inr s' \<and>
         (\<forall>t. zonal_csv s0 (out_file grid_var raster) = Some t \<and>
               var_name raster \<in> set (columns t) \<longrightarrow>
               gridmet_zonal_stats grid_var raster s0 = Inr s0 \<or>
               (\<exists>e. gridmet_zonal_stats grid_var raster s0 = Inl e))"
  using zonal_repeat [OF assms] zonal_no_write by blast

theorem zonal_stats_idempotent_witness:
  "gridmet_zonal_stats ''etr_mm''
     \<lparr>interp_function = ''linear'', res = ''400'', var_name = ''Annual_mean'',
      zonal_mean = (\<lambda>ring. Some 9)\<rparr>
     \<lparr>summary_csv = Some [], gridmet_meta = None,
      grid_shp = Some \<lparr>crs = Some 4326,
                       features = [\<lparr>geometry = [], GRIDMET_ID = Some 5\<rparr>,
                                   \<lparr>geometry = [], GRIDMET_ID = Some (- 999)\<rparr>]\<rparr>,
      grid_tmp_shp = None,
      zonal_csv = (\<lambda>f. if f = ''etr_mm_gridmet_summary_linear_400m.csv''
                         then Some \<lparr>columns = [''GRIDMET_ID'', ''Jan_mean'', ''Annual_mean''],
                                    rows = [(5, [Some 2, Some 1])]\<rparr>
                         else None)\<rparr>
   = Inr \<lparr>summary_csv = Some [], gridmet_meta = None,
      grid_shp = Some \<lparr>crs = Some 4326,
                       features = [\<lparr>geometry = [], GRIDMET_ID = Some 5\<rparr>,
                                   \<lparr>geometry = [], GRIDMET_ID = Some (- 999)\<rparr>]\<rparr>,
      grid_tmp_shp = None,
      zonal_csv = (\<lambda>f. if f = ''etr_mm_gridmet_summary_linear_400m.csv''
                         then Some \<lparr>columns = [''GRIDMET_ID'', ''Jan_mean'', ''Annual_mean''],
                                    rows = [(5, [Some 2, Some 1])]\<rparr>
                         else None)\<rparr>"
  using zonal_stats_idempotent [OF zonal_example,
      of "\<lparr>interp_function = ''linear'', res = ''400'', var_name = ''Annual_mean'',
      zonal_mean = (\<lambda>ring. Some 9)\<rparr>"]
  by simp

section \<open>Properties of the Grid Builder\<close>






lemma make_grid_catalog_missing:
  assumes "summary_csv s \<noteq> None"
      and "bounds = Some b \<or> (bounds = None \<and> get_subgrid_bounds (summary_csv s) buffer = Inr b)"
      and "gridmet_meta s = None"
  shows "make_grid bounds buffer True s =
           ([s\<lparr>grid_shp := None\<rparr>,
             s\<lparr>grid_shp := Some \<lparr>crs = None, features = fishnet b\<rparr>\<rparr>],
            Some FileNotFoundError)"
proof -
  have rb: "(case bounds of None \<Rightarrow> get_subgrid_bounds (summary_csv s) buffer
                          | Some b \<Rightarrow> Inr b) = Inr b"
    using assms(2) by auto
  show ?thesis
    using assms(1,3) unfolding make_grid_def rb by (simp add: update_subgrid_def Let_def)
qed







end
